theory Spec2Isabelle
  imports Complex_Main "HOL-Library.AList"
begin

section \<open>Lua values and tables\<close>

text \<open>
  The source file \<^verbatim>\<open>essh/lualib.go\<close> works on values of the embedded Lua runtime
  (package \<^verbatim>\<open>lua\<close>, gopher-lua).  A value (\<^verbatim>\<open>lua.LValue\<close>) is nil, a boolean, a
  string, a number (a float64; the model uses \<open>real\<close>, no arithmetic is done on it
  here), a function, a userdata or a table.  Functions and userdata are reference
  values; they are represented by an identifier.  A table (\<^verbatim>\<open>*lua.LTable\<close>) has
  three stores, as in the library: the \<open>array\<close> part for the keys \<open>1, 2, ...\<close>
  (a slice that may hold nil in a hole), \<open>strdict\<close> for string keys and \<open>dict\<close>
  for every other key.  The two Go maps are association lists; the order of a list
  is the order in which a \<^verbatim>\<open>range\<close> over the Go map visits it in the run at hand.
\<close>

datatype lvalue =
    LNil
  | LBool bool
  | LString string
  | LNumber real
  | LFunction nat
  | LUserData nat
  | LTable ltable
and ltable =
  Table (array: "lvalue list") (strdict: "(string \<times> lvalue) list")
        (dict: "(lvalue \<times> lvalue) list")

text \<open>\<^verbatim>\<open>L.NewTable()\<close>: a table with nothing in it.\<close>

definition NewTable :: ltable where
  "NewTable = Table [] [] []"

definition MaxArrayIndex :: nat where
  "MaxArrayIndex = 67108864"

text \<open>\<^verbatim>\<open>isInteger(v)\<close>: \<^verbatim>\<open>float64(int64(v)) == v\<close>.\<close>

definition isInteger :: "real \<Rightarrow> bool" where
  "isInteger v = (of_int \<lfloor>v\<rfloor> = v)"

text \<open>\<^verbatim>\<open>isArrayKey(v)\<close>: an integer with \<^verbatim>\<open>0 < v < MaxArrayIndex\<close>.\<close>

definition isArrayKey :: "real \<Rightarrow> bool" where
  "isArrayKey v = (isInteger v \<and> 0 < v \<and> v < of_nat MaxArrayIndex)"

text \<open>
  \<^verbatim>\<open>tb.RawGetInt(key)\<close> reads the array part; \<^verbatim>\<open>index := key - 1\<close>, and an index
  outside the slice gives nil.
\<close>

definition RawGetInt :: "ltable \<Rightarrow> nat \<Rightarrow> lvalue" where
  "RawGetInt tb key =
     (if key < 1 \<or> key - 1 \<ge> length (array tb) then LNil else array tb ! (key - 1))"

text \<open>\<^verbatim>\<open>tb.RawGetString(key)\<close> reads \<open>strdict\<close>; a missing key gives nil.\<close>

definition RawGetString :: "ltable \<Rightarrow> string \<Rightarrow> lvalue" where
  "RawGetString tb key = (case map_of (strdict tb) key of Some v \<Rightarrow> v | None \<Rightarrow> LNil)"




text \<open>
  \<^verbatim>\<open>tb.RawSetString\<close> and \<^verbatim>\<open>tb.RawSetH\<close>: storing nil deletes the key from the Go
  map, any other value is assigned (\<^verbatim>\<open>m[key] = value\<close>).
\<close>

definition RawSetString :: "ltable \<Rightarrow> string \<Rightarrow> lvalue \<Rightarrow> ltable" where
  "RawSetString tb key v =
     (if v = LNil then Table (array tb) (AList.delete key (strdict tb)) (dict tb)
      else Table (array tb) (AList.update key v (strdict tb)) (dict tb))"

definition RawSetH :: "ltable \<Rightarrow> lvalue \<Rightarrow> lvalue \<Rightarrow> ltable" where
  "RawSetH tb key v =
     (case key of
        LString s \<Rightarrow> RawSetString tb s v
      | _ \<Rightarrow>
        (if v = LNil then Table (array tb) (strdict tb) (AList.delete key (dict tb))
         else Table (array tb) (strdict tb) (AList.update key v (dict tb))))"

text \<open>
  \<^verbatim>\<open>tb.RawSet(key, value)\<close>.  For an array key the array part is assigned at
  \<^verbatim>\<open>index := int(v) - 1\<close>, which is \<open>arrayStore\<close>: with \<^verbatim>\<open>alen := len(tb.array)\<close>,
  \<^verbatim>\<open>index == alen\<close> appends, \<^verbatim>\<open>index > alen\<close> first appends \<^verbatim>\<open>index - alen\<close> nils,
  \<^verbatim>\<open>index < alen\<close> overwrites the slot.
\<close>

definition arrayStore :: "lvalue list \<Rightarrow> nat \<Rightarrow> lvalue \<Rightarrow> lvalue list" where
  "arrayStore arr index val =
     (let alen = length arr in
      if index = alen then arr @ [val]
      else if index > alen then arr @ replicate (index - alen) LNil @ [val]
      else arr[index := val])"

fun RawSet :: "ltable \<Rightarrow> lvalue \<Rightarrow> lvalue \<Rightarrow> ltable" where
  "RawSet tb (LNumber v) val =
     (if isArrayKey v then
        Table (arrayStore (array tb) (nat \<lfloor>v\<rfloor> - 1) val) (strdict tb) (dict tb)
      else RawSetH tb (LNumber v) val)"
| "RawSet tb (LString s) val = RawSetString tb s val"
| "RawSet tb key val = RawSetH tb key val"

text \<open>
  \<^verbatim>\<open>tb.ForEach(cb)\<close> calls \<open>cb\<close> on the non-nil slots of the array part in index
  order (with the key \<^verbatim>\<open>LNumber(i+1)\<close>), then on the non-nil entries of \<open>strdict\<close>,
  then on those of \<open>dict\<close>.  \<open>ForEach tb\<close> is the list of these calls' arguments; a
  callback with an effect is a fold over it.
\<close>

definition ForEach :: "ltable \<Rightarrow> (lvalue \<times> lvalue) list" where
  "ForEach tb =
     map (\<lambda>(i, v). (LNumber (of_nat (i + 1)), v))
         (filter (\<lambda>(i, v). v \<noteq> LNil) (enumerate 0 (array tb)))
     @ map (\<lambda>(k, v). (LString k, v)) (filter (\<lambda>(k, v). v \<noteq> LNil) (strdict tb))
     @ filter (\<lambda>(k, v). v \<noteq> LNil) (dict tb)"

text \<open>
  \<^verbatim>\<open>tb.MaxN()\<close> scans the array part from its end,
  \<^verbatim>\<open>for i := len(tb.array) - 1; i >= 0; i--\<close>, and returns \<^verbatim>\<open>i + 1\<close> at the first
  non-nil slot, \<open>0\<close> when there is none.  The second argument of the loop is
  \<^verbatim>\<open>i + 1\<close>.
\<close>

fun MaxN_loop :: "lvalue list \<Rightarrow> nat \<Rightarrow> nat" where
  "MaxN_loop arr 0 = 0"
| "MaxN_loop arr (Suc i) = (if arr ! i \<noteq> LNil then Suc i else MaxN_loop arr i)"

definition MaxN :: "ltable \<Rightarrow> nat" where
  "MaxN tb = MaxN_loop (array tb) (length (array tb))"



section \<open>Conversion to Go values\<close>

text \<open>
  \<^verbatim>\<open>toGoValue\<close> returns an \<^verbatim>\<open>interface{}\<close>: nil, a bool, a string, a float64, a
  \<^verbatim>\<open>map[string]interface{}\<close>, a \<^verbatim>\<open>[]interface{}\<close> or, in the default case, the Lua
  value itself.  The Go map is an association list, assigned with \<open>AList.update\<close>.
\<close>

datatype govalue =
    GNil
  | GBool bool
  | GString string
  | GFloat64 real
  | GMap "(string \<times> govalue) list"
  | GSlice "govalue list"
  | GLValue lvalue

lemma size_array_elem: "x \<in> set (array v) \<Longrightarrow> size x < size v"
proof (cases v)
  case (Table a s d)
  assume "x \<in> set (array v)"
  then have "size x \<le> size_list size a"
    using Table by (simp add: size_list_estimation')
  then show ?thesis using Table by simp
qed

lemma size_strdict_elem: "(k, x) \<in> set (strdict v) \<Longrightarrow> size x < size v"
proof (cases v)
  case (Table a s d)
  assume "(k, x) \<in> set (strdict v)"
  then have "size x \<le> size_list (size_prod (\<lambda>_. 0) size) s"
    using Table by (intro size_list_estimation'[where x = "(k, x)"]) simp_all
  then show ?thesis using Table by simp
qed

lemma size_dict_elem:
  "(k, x) \<in> set (dict v) \<Longrightarrow> size k < size v \<and> size x < size v"
proof (cases v)
  case (Table a s d)
  assume "(k, x) \<in> set (dict v)"
  then have "size k + size x \<le> size_list (size_prod size size) d"
    using Table by (intro size_list_estimation'[where x = "(k, x)"]) simp_all
  then show ?thesis using Table by simp
qed

lemma size_RawGetInt: "size (RawGetInt v i) < Suc (size v)"
  using size_array_elem[of "array v ! (i - 1)" v]
  by (auto simp: RawGetInt_def less_Suc_eq)

lemma size_ForEach:
  assumes "kv \<in> set (ForEach v)"
  shows "size (fst kv) < Suc (size v)" and "size (snd kv) < Suc (size v)"
  using assms size_array_elem[of "snd kv" v] size_strdict_elem[of _ "snd kv" v]
    size_dict_elem[of "fst kv" "snd kv" v]
  by (auto simp: ForEach_def in_set_enumerate_eq less_Suc_eq)

text \<open>
  \<^verbatim>\<open>toGoValue\<close> (lines 353-382).  \<open>sprint\<close> is \<^verbatim>\<open>fmt.Sprint\<close>, which turns a converted
  key into the key of the Go map; it is a parameter.  The loop
  \<^verbatim>\<open>for i := 1; i <= maxn; i++\<close> is the map over \<open>[1..<Suc maxn]\<close>.
\<close>

function toGoValue :: "(govalue \<Rightarrow> string) \<Rightarrow> lvalue \<Rightarrow> govalue" where
  "toGoValue sprint LNil = GNil"
| "toGoValue sprint (LBool v) = GBool v"
| "toGoValue sprint (LString v) = GString v"
| "toGoValue sprint (LNumber v) = GFloat64 v"
| "toGoValue sprint (LTable v) =
     (let maxn = MaxN v in
      if maxn = 0 then
        GMap (fold (\<lambda>kv ret. AList.update (sprint (toGoValue sprint (fst kv)))
                                 (toGoValue sprint (snd kv)) ret)
                   (ForEach v) [])
      else GSlice (map (\<lambda>i. toGoValue sprint (RawGetInt v i)) [1..<Suc maxn]))"
| "toGoValue sprint (LFunction f) = GLValue (LFunction f)"
| "toGoValue sprint (LUserData u) = GLValue (LUserData u)"
  by pat_completeness auto
termination
  by (relation "measure (\<lambda>(sprint, v). size v)")
     (simp_all add: size_ForEach size_RawGetInt)

text \<open>
  The typed accessors (lines 384-430) return a value and a flag.  Those that return
  a pointer (\<^verbatim>\<open>toLFunction\<close>, \<^verbatim>\<open>toLTable\<close>) are options: \<open>None\<close> is \<^verbatim>\<open>(nil, false)\<close>.
\<close>

definition toBool :: "lvalue \<Rightarrow> bool \<times> bool" where
  "toBool v = (case v of LBool lv \<Rightarrow> (lv, True) | _ \<Rightarrow> (False, False))"

definition toString :: "lvalue \<Rightarrow> string \<times> bool" where
  "toString v = (case v of LString lv \<Rightarrow> (lv, True) | _ \<Rightarrow> ([], False))"

definition toMap :: "(govalue \<Rightarrow> string) \<Rightarrow> lvalue \<Rightarrow> (string \<times> govalue) list \<times> bool" where
  "toMap sprint v = (case toGoValue sprint v of GMap lv \<Rightarrow> (lv, True) | _ \<Rightarrow> ([], False))"

definition toSlice :: "(govalue \<Rightarrow> string) \<Rightarrow> lvalue \<Rightarrow> govalue list \<times> bool" where
  "toSlice sprint v = (case toGoValue sprint v of GSlice lv \<Rightarrow> (lv, True) | _ \<Rightarrow> ([], False))"

definition toLFunction :: "lvalue \<Rightarrow> nat option" where
  "toLFunction v = (case v of LFunction lv \<Rightarrow> Some lv | _ \<Rightarrow> None)"

definition toLTable :: "lvalue \<Rightarrow> ltable option" where
  "toLTable v = (case v of LTable lv \<Rightarrow> Some lv | _ \<Rightarrow> None)"

section \<open>Process-wide collections\<close>

text \<open>
  \<^verbatim>\<open>Task\<close>, \<^verbatim>\<open>Host\<close> and \<^verbatim>\<open>Module\<close> are structs of the package declared outside
  \<^verbatim>\<open>lualib.go\<close>; the records hold the fields that \<^verbatim>\<open>lualib.go\<close> reads and writes.
  A hook stored in \<^verbatim>\<open>Host.Hooks\<close> (a \<^verbatim>\<open>map[string]interface{}\<close>) is either the Go
  closure built around a Lua function or a string.  \<^verbatim>\<open>Task.Prepare\<close> is a Go
  closure over the Lua function \<open>prepareFn\<close>: the field holds the captured
  function, \<open>None\<close> for the nil closure.
\<close>

datatype hook = NativeCallback nat | RemoteCommand string

record host =
  Host_Name :: string
  Host_Config :: ltable
  Host_Hooks :: "string \<rightharpoonup> hook"
  Host_Description :: string
  Host_Hidden :: bool
  Host_Tags :: "string list"

record task =
  Task_Name :: string
  Task_Description :: string
  Task_Pty :: bool
  Task_Parallel :: bool
  Task_Privileged :: bool
  Task_Script :: string
  Task_File :: string
  Task_On :: "string list"
  Task_Foreach :: "string list"
  Task_Prefix :: string
  Task_Prepare :: "nat option"

record module =
  Module_Name :: string
  Module_Value :: lvalue

text \<open>The package variables \<^verbatim>\<open>Tasks\<close>, \<^verbatim>\<open>Hosts\<close> and \<^verbatim>\<open>LoadedModules\<close>.\<close>

record state =
  Tasks :: "task list"
  Hosts :: "host list"
  LoadedModules :: "string \<rightharpoonup> module"

subsection \<open>esshReset\<close>

definition esshReset :: "state \<Rightarrow> state" where
  "esshReset s = s\<lparr>Tasks := [], Hosts := []\<rparr>"

section \<open>Errors and what the file takes from outside\<close>

text \<open>
  A Go \<^verbatim>\<open>error\<close> value is built by \<^verbatim>\<open>fmt.Errorf(format, args...)\<close>, returned by a
  protected call into the Lua runtime (\<open>ApiError\<close>, with the Lua error object) or
  returned by a collaborator outside this file, such as the module loader or
  \<^verbatim>\<open>os.Stat\<close> (\<open>ExtError\<close>).  A registration is left early either by
  \<^verbatim>\<open>L.RaiseError(format, args...)\<close> or by \<^verbatim>\<open>panic(err)\<close>.
\<close>

datatype go_error = Errorf string "lvalue list" | ApiError lvalue | ExtError string

datatype abort = RaiseError string "go_error list" | Panic go_error

text \<open>
  Library functions and package constants that \<^verbatim>\<open>lualib.go\<close> uses and does not
  declare are parameters: \<^verbatim>\<open>fmt.Sprint\<close>, \<^verbatim>\<open>unicode.IsUpper\<close> (on a rune, a code
  point), the text that \<^verbatim>\<open>LNumber.String()\<close> gives a number and \<^verbatim>\<open>%p\<close> gives a
  reference, and the constants \<^verbatim>\<open>DefaultPrefixRemote\<close> and \<^verbatim>\<open>DefaultPrefixLocal\<close>.
\<close>

record externals =
  fmt_Sprint :: "govalue \<Rightarrow> string"
  unicode_IsUpper :: "nat \<Rightarrow> bool"
  LNumber_String :: "real \<Rightarrow> string"
  fmt_Pointer :: "lvalue \<Rightarrow> string"
  DefaultPrefixRemote :: string
  DefaultPrefixLocal :: string

section \<open>registerTask\<close>

text \<open>
  Modelled from the spec: \<^verbatim>\<open>NewTask()\<close> is declared outside \<^verbatim>\<open>lualib.go\<close>; the spec
  says a task is "created via a constructor yielding a zero-valued Task".
\<close>

definition NewTask :: task where
  "NewTask = \<lparr>Task_Name = [], Task_Description = [], Task_Pty = False,
     Task_Parallel = False, Task_Privileged = False, Task_Script = [], Task_File = [],
     Task_On = [], Task_Foreach = [], Task_Prefix = [], Task_Prepare = None\<rparr>"

text \<open>
  Modelled from the spec: \<^verbatim>\<open>task.IsRemoteTask()\<close> is declared outside \<^verbatim>\<open>lualib.go\<close>;
  the spec says a task is a remote task when it "has any of On/Foreach populated".
\<close>

definition IsRemoteTask :: "task \<Rightarrow> bool" where
  "IsRemoteTask t = (length (Task_On t) \<ge> 1 \<or> length (Task_Foreach t) \<ge> 1)"

text \<open>Lines 210-238: the fields read with \<^verbatim>\<open>toString\<close> and \<^verbatim>\<open>toBool\<close>.\<close>

definition taskScalars :: "ltable \<Rightarrow> task \<Rightarrow> task" where
  "taskScalars config task =
     (let task = (case toString (RawGetString config ''description'') of
                    (descStr, ok) \<Rightarrow> if ok then task\<lparr>Task_Description := descStr\<rparr> else task);
          task = (case toBool (RawGetString config ''pty'') of
                    (ptyBool, ok) \<Rightarrow> if ok then task\<lparr>Task_Pty := ptyBool\<rparr> else task);
          task = (case toBool (RawGetString config ''parallel'') of
                    (parallelBool, ok) \<Rightarrow>
                      if ok then task\<lparr>Task_Parallel := parallelBool\<rparr> else task);
          task = (case toBool (RawGetString config ''privileged'') of
                    (privilegedBool, ok) \<Rightarrow>
                      if ok then task\<lparr>Task_Privileged := privilegedBool\<rparr> else task);
          task = (case toString (RawGetString config ''script'') of
                    (scriptStr, ok) \<Rightarrow> if ok then task\<lparr>Task_Script := scriptStr\<rparr> else task);
          task = (case toString (RawGetString config ''file'') of
                    (fileStr, ok) \<Rightarrow> if ok then task\<lparr>Task_File := fileStr\<rparr> else task)
      in task)"

text \<open>
  Lines 244-253 and 255-264: a string becomes the one-element slice, and otherwise
  the strings of a slice are appended, in order, to what the field holds.
\<close>

definition appendTargets :: "govalue list \<Rightarrow> string list \<Rightarrow> string list" where
  "appendTargets slice field =
     fold (\<lambda>target acc. case target of GString targetStr \<Rightarrow> acc @ [targetStr] | _ \<Rightarrow> acc)
          slice field"

definition targetsOf :: "externals \<Rightarrow> lvalue \<Rightarrow> string list \<Rightarrow> string list" where
  "targetsOf ext v field =
     (case toString v of
        (str, ok) \<Rightarrow>
          if ok then [str]
          else (case toSlice (fmt_Sprint ext) v of
                  (slice, ok2) \<Rightarrow> if ok2 then appendTargets slice field else field))"

text \<open>Lines 270-281.\<close>

definition taskPrefix :: "externals \<Rightarrow> ltable \<Rightarrow> task \<Rightarrow> task" where
  "taskPrefix ext config task =
     (let prefix = RawGetString config ''prefix'' in
      case toBool prefix of
        (prefixBool, ok) \<Rightarrow>
          if ok then
            (if prefixBool then
               (if IsRemoteTask task then task\<lparr>Task_Prefix := DefaultPrefixRemote ext\<rparr>
                else task\<lparr>Task_Prefix := DefaultPrefixLocal ext\<rparr>)
             else task)
          else (case toString prefix of
                  (prefixStr, ok2) \<Rightarrow>
                    if ok2 then task\<lparr>Task_Prefix := prefixStr\<rparr> else task))"

definition msgFileScript :: string where
  "msgFileScript =
     ''invalid task definition: can't use 'file' and 'script' at the same time.''"

definition msgForeachOn :: string where
  "msgForeachOn =
     ''invalid task definition: can't use 'foreach' and 'on' at the same time.''"

text \<open>
  \<^verbatim>\<open>registerTask\<close> (lines 206-318).  The result is the abort, if any, and the
  package state afterwards; \<^verbatim>\<open>Tasks\<close> is assigned only by the last statement.
\<close>

definition registerTask :: "externals \<Rightarrow> string \<Rightarrow> ltable \<Rightarrow> state \<Rightarrow> abort option \<times> state" where
  "registerTask ext name config s =
     (let task = taskScalars config (NewTask\<lparr>Task_Name := name\<rparr>) in
      if Task_File task \<noteq> [] \<and> Task_Script task \<noteq> [] then
        (Some (RaiseError msgFileScript []), s)
      else
        (let task = task\<lparr>Task_On := targetsOf ext (RawGetString config ''on'') (Task_On task)\<rparr>;
             task = task\<lparr>Task_Foreach :=
                      targetsOf ext (RawGetString config ''foreach'') (Task_Foreach task)\<rparr>
         in
         if length (Task_Foreach task) \<ge> 1 \<and> length (Task_On task) \<ge> 1 then
           (Some (RaiseError msgForeachOn []), s)
         else
           (let task = taskPrefix ext config task;
                prepare = RawGetString config ''prepare''
            in
            if prepare \<noteq> LNil then
              (case prepare of
                 LFunction prepareFn \<Rightarrow>
                   (None, s\<lparr>Tasks := Tasks s @ [task\<lparr>Task_Prepare := Some prepareFn\<rparr>]\<rparr>)
               | _ \<Rightarrow> (Some (RaiseError ''prepare have to be function.'' []), s))
            else (None, s\<lparr>Tasks := Tasks s @ [task]\<rparr>))))"

text \<open>
  The closure assigned to \<^verbatim>\<open>task.Prepare\<close> (lines 286-311).  \<^verbatim>\<open>TaskContext\<close> is declared
  outside this file; \<^verbatim>\<open>lualib.go\<close> reads and writes its \<^verbatim>\<open>Payload\<close> string.  The
  protected call \<^verbatim>\<open>L.CallByParam(lua.P{Fn: prepareFn, NRet: 1, Protect: true}, lctx)\<close>
  is the parameter \<open>call\<close>: for a Lua function and a context it gives the error the
  call returned, or the values the function returned, and the context afterwards.
  With \<^verbatim>\<open>NRet: 1\<close> the runtime leaves exactly one value on the stack, the first
  returned value, nil when there is none; \<^verbatim>\<open>L.Get(-1)\<close> reads it.
\<close>

record task_context =
  Payload :: string

type_synonym lua_call = "nat \<Rightarrow> task_context \<Rightarrow> (go_error + lvalue list) \<times> task_context"

definition Prepare :: "lua_call \<Rightarrow> nat \<Rightarrow> task_context \<Rightarrow> go_error option \<times> task_context" where
  "Prepare call prepareFn ctx =
     (case call prepareFn ctx of
        (Inl err, ctx') \<Rightarrow> (Some err, ctx')
      | (Inr rets, ctx') \<Rightarrow>
          (let ret = (case rets of [] \<Rightarrow> LNil | r # _ \<Rightarrow> r) in
           if ret = LNil then (None, ctx')
           else (case ret of
                   LBool retB \<Rightarrow>
                     if retB then (None, ctx')
                     else (Some (Errorf ''returned false from the prepare function.'' []), ctx')
                 | _ \<Rightarrow> (None, ctx'))))"

section \<open>registerHost\<close>

text \<open>
  \<^verbatim>\<open>k.String()\<close> of a Lua value: \<open>nil\<close>, \<open>true\<close> or \<open>false\<close>, the string itself, the
  number as text, and \<^verbatim>\<open>function: %p\<close>, \<^verbatim>\<open>userdata: %p\<close>, \<^verbatim>\<open>table: %p\<close> for the
  reference values.
\<close>

fun LValue_String :: "externals \<Rightarrow> lvalue \<Rightarrow> string" where
  "LValue_String ext LNil = ''nil''"
| "LValue_String ext (LBool b) = (if b then ''true'' else ''false'')"
| "LValue_String ext (LString s) = s"
| "LValue_String ext (LNumber n) = LNumber_String ext n"
| "LValue_String ext (LFunction f) = ''function: '' @ fmt_Pointer ext (LFunction f)"
| "LValue_String ext (LUserData u) = ''userdata: '' @ fmt_Pointer ext (LUserData u)"
| "LValue_String ext (LTable t) = ''table: '' @ fmt_Pointer ext (LTable t)"

text \<open>
  A Go string is a sequence of bytes, and \<^verbatim>\<open>for _, c := range str\<close> decodes UTF-8:
  \<open>decodeRune\<close> is the rune that the first iteration yields on the bytes given,
  \<^verbatim>\<open>utf8.RuneError\<close> (U+FFFD) for an encoding that is not valid.  The loop of
  lines 103-107 stops after that iteration; on the empty string it never runs and
  \<open>firstChar\<close> keeps its zero value.
\<close>

definition RuneError :: nat where
  "RuneError = 65533"

definition contByte :: "nat \<Rightarrow> bool" where
  "contByte b = (128 \<le> b \<and> b \<le> 191)"

fun decodeRune :: "nat list \<Rightarrow> nat" where
  "decodeRune [] = RuneError"
| "decodeRune (s0 # rest) =
     (if s0 < 128 then s0
      else if s0 < 194 \<or> 244 < s0 then RuneError
      else if s0 < 224 then
        (case rest of
           s1 # _ \<Rightarrow> if contByte s1 then (s0 mod 32) * 64 + s1 mod 64 else RuneError
         | _ \<Rightarrow> RuneError)
      else if s0 < 240 then
        (case rest of
           s1 # s2 # _ \<Rightarrow>
             if (if s0 = 224 then 160 \<le> s1 \<and> s1 \<le> 191
                 else if s0 = 237 then 128 \<le> s1 \<and> s1 \<le> 159
                 else contByte s1) \<and> contByte s2
             then (s0 mod 16) * 4096 + (s1 mod 64) * 64 + s2 mod 64
             else RuneError
         | _ \<Rightarrow> RuneError)
      else
        (case rest of
           s1 # s2 # s3 # _ \<Rightarrow>
             if (if s0 = 240 then 144 \<le> s1 \<and> s1 \<le> 191
                 else if s0 = 244 then 128 \<le> s1 \<and> s1 \<le> 143
                 else contByte s1) \<and> contByte s2 \<and> contByte s3
             then (s0 mod 8) * 262144 + (s1 mod 64) * 4096 + (s2 mod 64) * 64 + s3 mod 64
             else RuneError
         | _ \<Rightarrow> RuneError))"

definition firstChar :: "string \<Rightarrow> nat" where
  "firstChar str = (case str of [] \<Rightarrow> 0 | _ \<Rightarrow> decodeRune (map of_char str))"

text \<open>Lines 101-112: the callback of \<^verbatim>\<open>config.ForEach\<close> fills \<open>newConfig\<close>.\<close>

definition filterConfig :: "externals \<Rightarrow> ltable \<Rightarrow> ltable" where
  "filterConfig ext config =
     fold (\<lambda>kv newConfig.
             if unicode_IsUpper ext (firstChar (LValue_String ext (fst kv)))
             then RawSet newConfig (fst kv) (snd kv) else newConfig)
          (ForEach config) NewTable"

text \<open>
  \<^verbatim>\<open>registerHook\<close> (lines 174-192) and \<^verbatim>\<open>registerRemoteHook\<close> (lines 194-204) return
  the error and the host, whose \<^verbatim>\<open>Hooks\<close> map they assign.
\<close>

definition registerHook :: "host \<Rightarrow> string \<Rightarrow> lvalue \<Rightarrow> go_error option \<times> host" where
  "registerHook host hookPoint hook =
     (if hook \<noteq> LNil then
        (case toLFunction hook of
           Some hookFn \<Rightarrow>
             (None, host\<lparr>Host_Hooks := (Host_Hooks host)(hookPoint \<mapsto> NativeCallback hookFn)\<rparr>)
         | None \<Rightarrow>
             (case toString hook of
                (hookString, ok) \<Rightarrow>
                  if ok then
                    (None, host\<lparr>Host_Hooks :=
                                   (Host_Hooks host)(hookPoint \<mapsto> RemoteCommand hookString)\<rparr>)
                  else (Some (Errorf ''invalid hook type %v'' [hook]), host)))
      else (None, host))"

definition registerRemoteHook :: "host \<Rightarrow> string \<Rightarrow> lvalue \<Rightarrow> go_error option \<times> host" where
  "registerRemoteHook host hookPoint hook =
     (if hook \<noteq> LNil then
        (case toString hook of
           (hookString, ok) \<Rightarrow>
             if ok then
               (None, host\<lparr>Host_Hooks :=
                              (Host_Hooks host)(hookPoint \<mapsto> RemoteCommand hookString)\<rparr>)
             else (Some (Errorf ''invalid hook type %v'' [hook]), host))
      else (None, host))"

text \<open>Lines 123-147: the five registrations, each followed by \<^verbatim>\<open>panic(err)\<close>.\<close>

definition hostHooks :: "ltable \<Rightarrow> host \<Rightarrow> abort option \<times> host" where
  "hostHooks hookTb h =
     (case registerHook h ''before'' (RawGetString hookTb ''before'') of
        (Some err, h) \<Rightarrow> (Some (Panic err), h)
      | (None, h) \<Rightarrow>
     (case registerHook h ''before_connect'' (RawGetString hookTb ''before_connect'') of
        (Some err, h) \<Rightarrow> (Some (Panic err), h)
      | (None, h) \<Rightarrow>
     (case registerRemoteHook h ''after_connect'' (RawGetString hookTb ''after_connect'') of
        (Some err, h) \<Rightarrow> (Some (Panic err), h)
      | (None, h) \<Rightarrow>
     (case registerHook h ''after'' (RawGetString hookTb ''after'') of
        (Some err, h) \<Rightarrow> (Some (Panic err), h)
      | (None, h) \<Rightarrow>
     (case registerHook h ''after_disconnect'' (RawGetString hookTb ''after_disconnect'') of
        (Some err, h) \<Rightarrow> (Some (Panic err), h)
      | (None, h) \<Rightarrow> (None, h))))))"

text \<open>Lines 162-168: the callback of \<^verbatim>\<open>tagsTb.ForEach\<close>, run on the list of its calls.\<close>

fun tagsLoop :: "(lvalue \<times> lvalue) list \<Rightarrow> host \<Rightarrow> abort option \<times> host" where
  "tagsLoop [] h = (None, h)"
| "tagsLoop (kv # rest) h =
     (case toString (snd kv) of
        (vs, ok) \<Rightarrow>
          if ok then tagsLoop rest (h\<lparr>Host_Tags := Host_Tags h @ [vs]\<rparr>)
          else (Some (RaiseError ''unsupported format of tags.'' []), h))"

text \<open>Lines 121-148: the hooks are registered when \<open>hooks\<close> is a table.\<close>

definition hostHooksOf :: "ltable \<Rightarrow> host \<Rightarrow> abort option \<times> host" where
  "hostHooksOf config h =
     (case toLTable (RawGetString config ''hooks'') of
        Some hookTb \<Rightarrow> hostHooks hookTb h
      | None \<Rightarrow> (None, h))"

text \<open>Lines 150-158: \<open>description\<close> and \<open>hidden\<close>.\<close>

definition hostScalars :: "ltable \<Rightarrow> host \<Rightarrow> host" where
  "hostScalars config h =
     (let h = (case toString (RawGetString config ''description'') of
                 (descStr, ok) \<Rightarrow> if ok then h\<lparr>Host_Description := descStr\<rparr> else h);
          h = (case toBool (RawGetString config ''hidden'') of
                 (hiddenBool, ok) \<Rightarrow> if ok then h\<lparr>Host_Hidden := hiddenBool\<rparr> else h)
      in h)"

text \<open>Lines 160-169: the tags are read when \<open>tags\<close> is a table.\<close>

definition hostTags :: "ltable \<Rightarrow> host \<Rightarrow> abort option \<times> host" where
  "hostTags config h =
     (case RawGetString config ''tags'' of
        LTable tagsTb \<Rightarrow> tagsLoop (ForEach tagsTb) h
      | _ \<Rightarrow> (None, h))"

text \<open>
  \<^verbatim>\<open>registerHost\<close> (lines 100-172).  \<open>newHost\<close> is the struct literal of lines
  114-119.  \<^verbatim>\<open>Hosts\<close> is assigned only by the last statement, so an abort leaves the
  package state as it was.
\<close>

definition newHost :: "externals \<Rightarrow> string \<Rightarrow> ltable \<Rightarrow> host" where
  "newHost ext name config =
     \<lparr>Host_Name = name, Host_Config = filterConfig ext config, Host_Hooks = Map.empty,
      Host_Description = [], Host_Hidden = False, Host_Tags = []\<rparr>"

definition registerHost :: "externals \<Rightarrow> string \<Rightarrow> ltable \<Rightarrow> state \<Rightarrow> abort option \<times> state" where
  "registerHost ext name config s =
     (case hostHooksOf config (newHost ext name config) of
        (Some a, h) \<Rightarrow> (Some a, s)
      | (None, h) \<Rightarrow>
          (case hostTags config (hostScalars config h) of
             (Some a, h) \<Rightarrow> (Some a, s)
           | (None, h) \<Rightarrow> (None, s\<lparr>Hosts := Hosts s @ [h]\<rparr>)))"

section \<open>esshRequire\<close>





text \<open>
  The collaborators of \<^verbatim>\<open>esshRequire\<close> act on the world outside the package state
  (the file system, the network, the globals of the Lua runtime), of type \<open>'w\<close>:
  \<^verbatim>\<open>module.Load(updateFlag)\<close> returns an error or nil and may change the world;
  \<^verbatim>\<open>module.IndexFile()\<close> names the index script; \<^verbatim>\<open>os.Stat\<close> returns an error or nil;
  \<^verbatim>\<open>L.DoFile\<close> evaluates the script, which may itself register hosts, tasks and
  modules, and returns an error or pushes the values the script returns.
  \<^verbatim>\<open>updateFlag\<close> is a package variable declared outside this file.  Each call that
  \<^verbatim>\<open>esshRequire\<close> makes to a collaborator is recorded as an event.
\<close>

datatype event = is_Load: EvLoad string | is_Stat: EvStat string | is_DoFile: EvDoFile string



section \<open>Instances for the examples\<close>

text \<open>
  The examples below run the definitions on concrete inputs.  They need values for the
  parameters: \<open>sampleExternals\<close> agrees with \<^verbatim>\<open>unicode.IsUpper\<close> on the code points
  below 256 (the letters A-Z and the capital letters of Latin-1) and fixes the other
  texts arbitrarily; \<open>emptyState\<close> is the package state at start.
\<close>

definition sampleExternals :: externals where
  "sampleExternals = \<lparr>fmt_Sprint = (\<lambda>_. []),
     unicode_IsUpper = (\<lambda>r. (65 \<le> r \<and> r \<le> 90) \<or> (192 \<le> r \<and> r \<le> 222 \<and> r \<noteq> 215)),
     LNumber_String = (\<lambda>_. ''0''), fmt_Pointer = (\<lambda>_. ''0x0''),
     DefaultPrefixRemote = ''[remote]'', DefaultPrefixLocal = ''[local]''\<rparr>"

definition emptyState :: state where
  "emptyState = \<lparr>Tasks = [], Hosts = [], LoadedModules = Map.empty\<rparr>"

text \<open>
  The two guards of \<^verbatim>\<open>registerTask\<close> (lines 240 and 266), as conditions on the
  configuration table.
\<close>

definition fileScriptConflict :: "ltable \<Rightarrow> bool" where
  "fileScriptConflict config =
     (fst (toString (RawGetString config ''file'')) \<noteq> []
      \<and> fst (toString (RawGetString config ''script'')) \<noteq> [])"

definition foreachOnConflict :: "externals \<Rightarrow> ltable \<Rightarrow> bool" where
  "foreachOnConflict ext config =
     (targetsOf ext (RawGetString config ''foreach'') [] \<noteq> []
      \<and> targetsOf ext (RawGetString config ''on'') [] \<noteq> [])"

definition conflictingTask :: ltable where
  "conflictingTask = Table [] [(''file'', LString ''a.sh''), (''script'', LString ''ls''),
     (''on'', LString ''web''), (''foreach'', LString ''db'')] []"

text \<open>
  A Lua runtime for the examples: function 0 returns nothing, 1 returns \<open>false\<close>,
  2 raises an error, 3 returns a string, every other function returns \<open>true\<close> after
  writing the payload.
\<close>

definition sampleCall :: lua_call where
  "sampleCall fn ctx =
     (if fn = 0 then (Inr [], ctx)
      else if fn = 1 then (Inr [LBool False], ctx)
      else if fn = 2 then (Inl (ApiError (LString ''boom'')), ctx)
      else if fn = 3 then (Inr [LString ''ok''], ctx)
      else (Inr [LBool True], ctx\<lparr>Payload := ''seen''\<rparr>))"

definition conflictingPrepare :: ltable where
  "conflictingPrepare = Table [] [(''file'', LString ''a.sh''), (''script'', LString ''ls''),
     (''prepare'', LNumber 1)] []"

definition hooksWithFunction :: ltable where
  "hooksWithFunction =
     Table [] [(''hooks'', LTable (Table [] [(''after_connect'', LFunction 7)] []))] []"

definition hooksWithCommand :: ltable where
  "hooksWithCommand =
     Table [] [(''hooks'', LTable (Table [] [(''after_connect'', LString ''uptime'')] []))] []"

definition taggedHost :: ltable where
  "taggedHost = Table [] [(''tags'', LTable (Table [LString ''a'', LString ''b''] [] []))] []"

definition badlyTaggedHost :: ltable where
  "badlyTaggedHost = Table [] [(''tags'', LTable (Table [LString ''a'', LNumber 1] [] []))] []"

definition badHookTaggedHost :: ltable where
  "badHookTaggedHost =
     Table [] [(''hooks'', LTable (Table [] [(''before'', LNumber 42)] [])),
               (''tags'', LTable (Table [LNumber 1] [] []))] []"

text \<open>
  The spec's wording of \<open>maxN\<close>, to compare \<^verbatim>\<open>MaxN\<close> with: "the largest integer \<open>n\<close>
  such that keys \<open>1..n\<close> are all present and contiguous from 1", that is the number
  of leading non-nil slots of the array part.
\<close>

definition contiguousN :: "ltable \<Rightarrow> nat" where
  "contiguousN tb = length (takeWhile (\<lambda>v. v \<noteq> LNil) (array tb))"



section \<open>Descriptions used in the proofs\<close>

text \<open>
  What the two registrars do, read off their definitions: the error for a hook value,
  the hook stored for it, the first error among the five registrations of lines
  123-147, and the abort of the hooks block.  \<open>isLString\<close> is the test of line 163.
\<close>

definition hookError :: "lvalue \<Rightarrow> go_error option" where
  "hookError hook =
     (case hook of LNil \<Rightarrow> None | LFunction _ \<Rightarrow> None | LString _ \<Rightarrow> None
      | _ \<Rightarrow> Some (Errorf ''invalid hook type %v'' [hook]))"

definition remoteHookError :: "lvalue \<Rightarrow> go_error option" where
  "remoteHookError hook =
     (case hook of LNil \<Rightarrow> None | LString _ \<Rightarrow> None
      | _ \<Rightarrow> Some (Errorf ''invalid hook type %v'' [hook]))"

definition hookStored :: "lvalue \<Rightarrow> hook option" where
  "hookStored hook =
     (case hook of LFunction hookFn \<Rightarrow> Some (NativeCallback hookFn)
      | LString hookString \<Rightarrow> Some (RemoteCommand hookString) | _ \<Rightarrow> None)"

definition setHook :: "host \<Rightarrow> string \<Rightarrow> hook option \<Rightarrow> host" where
  "setHook h hookPoint v =
     (case v of None \<Rightarrow> h | Some x \<Rightarrow> h\<lparr>Host_Hooks := (Host_Hooks h)(hookPoint \<mapsto> x)\<rparr>)"

definition hooksError :: "ltable \<Rightarrow> go_error option" where
  "hooksError hookTb =
     (case hookError (RawGetString hookTb ''before'') of Some e \<Rightarrow> Some e | None \<Rightarrow>
      case hookError (RawGetString hookTb ''before_connect'') of Some e \<Rightarrow> Some e | None \<Rightarrow>
      case remoteHookError (RawGetString hookTb ''after_connect'') of Some e \<Rightarrow> Some e | None \<Rightarrow>
      case hookError (RawGetString hookTb ''after'') of Some e \<Rightarrow> Some e | None \<Rightarrow>
      hookError (RawGetString hookTb ''after_disconnect''))"

definition isLString :: "lvalue \<Rightarrow> bool" where
  "isLString v = snd (toString v)"

definition hooksAbort :: "ltable \<Rightarrow> abort option" where
  "hooksAbort config =
     (case toLTable (RawGetString config ''hooks'') of
        Some hookTb \<Rightarrow> map_option Panic (hooksError hookTb)
      | None \<Rightarrow> None)"




section \<open>Properties\<close>

text \<open>
  C9.  In every state, \<open>reset()\<close> leaves the Host collection and the Task collection
  empty and leaves the module registry, with every cached module value, as it was.
\<close>

theorem esshReset_clears_hosts_tasks_keeps_modules:
  "Hosts (esshReset s) = [] \<and> Tasks (esshReset s) = []
   \<and> LoadedModules (esshReset s) = LoadedModules s"
  by (simp add: esshReset_def)

subsection \<open>Accessors\<close>

lemma toString_simps [simp]:
  "toString (LString x) = (x, True)" "toString LNil = ([], False)"
  "toString (LBool b) = ([], False)" "toString (LNumber r) = ([], False)"
  "toString (LFunction f) = ([], False)" "toString (LUserData u) = ([], False)"
  "toString (LTable t) = ([], False)"
  by (simp_all add: toString_def)

lemma toBool_simps [simp]:
  "toBool (LBool b) = (b, True)" "toBool LNil = (False, False)"
  "toBool (LString x) = (False, False)" "toBool (LNumber r) = (False, False)"
  "toBool (LFunction f) = (False, False)" "toBool (LUserData u) = (False, False)"
  "toBool (LTable t) = (False, False)"
  by (simp_all add: toBool_def)

subsection \<open>Task construction\<close>

lemma taskScalars_File:
  "Task_File (taskScalars config (NewTask\<lparr>Task_Name := name\<rparr>))
     = fst (toString (RawGetString config ''file''))"
  by (cases "RawGetString config ''file''")
     (simp_all add: taskScalars_def Let_def NewTask_def split: prod.splits)

lemma taskScalars_Script:
  "Task_Script (taskScalars config (NewTask\<lparr>Task_Name := name\<rparr>))
     = fst (toString (RawGetString config ''script''))"
  by (cases "RawGetString config ''script''")
     (simp_all add: taskScalars_def Let_def NewTask_def split: prod.splits)

lemma taskScalars_On:
  "Task_On (taskScalars config (NewTask\<lparr>Task_Name := name\<rparr>)) = []"
  "Task_Foreach (taskScalars config (NewTask\<lparr>Task_Name := name\<rparr>)) = []"
  by (simp_all add: taskScalars_def Let_def NewTask_def split: prod.splits)

text \<open>
  C3.  When the keys \<open>file\<close> and \<open>script\<close> of a task configuration both hold non-empty
  strings, \<^verbatim>\<open>registerTask\<close> raises the file/script exclusivity error and the task is
  not appended: the package state, and so \<^verbatim>\<open>Tasks\<close>, is what it was.
\<close>

theorem registerTask_file_script_exclusive:
  assumes "RawGetString config ''file'' = LString fileStr" and "fileStr \<noteq> []"
    and "RawGetString config ''script'' = LString scriptStr" and "scriptStr \<noteq> []"
  shows "registerTask ext name config s = (Some (RaiseError msgFileScript []), s)
         \<and> Tasks (snd (registerTask ext name config s)) = Tasks s"
  using assms
  by (simp add: registerTask_def Let_def taskScalars_File taskScalars_Script)

theorem registerTask_file_script_exclusive_witness:
  "registerTask sampleExternals ''deploy''
     (Table [] [(''file'', LString ''a.sh''), (''script'', LString ''ls'')] []) emptyState
   = (Some (RaiseError msgFileScript []), emptyState)
   \<and> Tasks (snd (registerTask sampleExternals ''deploy''
     (Table [] [(''file'', LString ''a.sh''), (''script'', LString ''ls'')] []) emptyState)) = []"
  using registerTask_file_script_exclusive[of
      "Table [] [(''file'', LString ''a.sh''), (''script'', LString ''ls'')] []"
      "''a.sh''" "''ls''" sampleExternals "''deploy''" emptyState]
  by (simp add: RawGetString_def emptyState_def)

text \<open>
  C4, as the code has it.  When \<open>on\<close> and \<open>foreach\<close> both coerce to non-empty
  sequences, \<^verbatim>\<open>registerTask\<close> fails and appends nothing.  The error is the on/foreach
  exclusivity error unless \<open>file\<close> and \<open>script\<close> are both non-empty strings: that
  guard comes first (line 240) and raises the file/script error.
\<close>

theorem registerTask_on_foreach_exclusive:
  assumes "targetsOf ext (RawGetString config ''on'') [] \<noteq> []"
    and "targetsOf ext (RawGetString config ''foreach'') [] \<noteq> []"
  shows "registerTask ext name config s =
           (Some (RaiseError (if fileScriptConflict config then msgFileScript
                              else msgForeachOn) []), s)"
  using assms
  by (simp add: registerTask_def Let_def taskScalars_File taskScalars_Script taskScalars_On
      fileScriptConflict_def Suc_le_eq)

theorem registerTask_on_foreach_exclusive_witness:
  "registerTask sampleExternals ''deploy''
     (Table [LString ''x''] [(''on'', LString ''web''),
        (''foreach'', LTable (Table [LString ''db1'', LNumber 7, LString ''db2''] [] []))] [])
     emptyState
   = (Some (RaiseError msgForeachOn []), emptyState)"
  using registerTask_on_foreach_exclusive[of sampleExternals
     "Table [LString ''x''] [(''on'', LString ''web''),
        (''foreach'', LTable (Table [LString ''db1'', LNumber 7, LString ''db2''] [] []))] []"
     "''deploy''" emptyState]
  by (simp add: RawGetString_def targetsOf_def toSlice_def MaxN_def RawGetInt_def
      appendTargets_def fileScriptConflict_def)

text \<open>
  C4 as stated fails: in \<open>conflictingTask\<close> the keys \<open>on\<close> and \<open>foreach\<close> coerce to
  the non-empty sequences \<open>[web]\<close> and \<open>[db]\<close>, and the error raised is the
  file/script one, not the on/foreach one.
\<close>

theorem registerTask_on_foreach_counterexample:
  "targetsOf sampleExternals (RawGetString conflictingTask ''on'') [] = [''web'']
   \<and> targetsOf sampleExternals (RawGetString conflictingTask ''foreach'') [] = [''db'']
   \<and> fst (registerTask sampleExternals ''deploy'' conflictingTask emptyState)
       = Some (RaiseError msgFileScript [])
   \<and> fst (registerTask sampleExternals ''deploy'' conflictingTask emptyState)
       \<noteq> Some (RaiseError msgForeachOn [])"
  by (simp add: registerTask_def Let_def taskScalars_File taskScalars_Script taskScalars_On
      conflictingTask_def RawGetString_def targetsOf_def msgFileScript_def msgForeachOn_def)

lemma registerTask_cases:
  "registerTask ext name config s =
     (if fileScriptConflict config then (Some (RaiseError msgFileScript []), s)
      else if foreachOnConflict ext config then (Some (RaiseError msgForeachOn []), s)
      else (case RawGetString config ''prepare'' of
              LNil \<Rightarrow> (None, snd (registerTask ext name config s))
            | LFunction prepareFn \<Rightarrow> (None, snd (registerTask ext name config s))
            | _ \<Rightarrow> (Some (RaiseError ''prepare have to be function.'' []), s)))"
  by (simp add: registerTask_def Let_def taskScalars_File taskScalars_Script taskScalars_On
      fileScriptConflict_def foreachOnConflict_def Suc_le_eq split: lvalue.splits)

lemma registerTask_accepts_function:
  assumes "RawGetString config ''prepare'' = LFunction prepareFn"
    and "\<not> fileScriptConflict config" and "\<not> foreachOnConflict ext config"
  shows "\<exists>t. registerTask ext name config s = (None, s\<lparr>Tasks := Tasks s @ [t]\<rparr>)
             \<and> Task_Prepare t = Some prepareFn"
  using assms
  by (auto simp add: registerTask_def Let_def taskScalars_File taskScalars_Script taskScalars_On
      fileScriptConflict_def foreachOnConflict_def Suc_le_eq)

text \<open>
  C7, as the code has it.  A \<open>prepare\<close> value that is neither nil nor a function
  makes \<^verbatim>\<open>registerTask\<close> fail with nothing appended; the error is
  \<open>prepare have to be function.\<close> when the two earlier guards (file/script, line 240,
  and foreach/on, line 266) pass, and otherwise the error of the first guard that
  fails.  A function is stored when the guards pass, and invoking the stored closure
  gives no error when the callback returns nothing, nil or \<open>true\<close>, the error
  \<open>returned false from the prepare function.\<close> when it returns \<open>false\<close>, and the
  error of the protected call itself when the callback fails.
\<close>

theorem prepare_contract:
  "(RawGetString config ''prepare'' \<noteq> LNil
      \<and> (\<forall>f. RawGetString config ''prepare'' \<noteq> LFunction f) \<longrightarrow>
      registerTask ext name config s =
        (Some (RaiseError (if fileScriptConflict config then msgFileScript
                           else if foreachOnConflict ext config then msgForeachOn
                           else ''prepare have to be function.'') []), s))
   \<and> (RawGetString config ''prepare'' = LFunction prepareFn
        \<and> \<not> fileScriptConflict config \<and> \<not> foreachOnConflict ext config \<longrightarrow>
      (\<exists>t. registerTask ext name config s = (None, s\<lparr>Tasks := Tasks s @ [t]\<rparr>)
           \<and> Task_Prepare t = Some prepareFn))
   \<and> (call fn ctx = (Inr [], ctx') \<or> call fn ctx = (Inr (LNil # rest), ctx')
        \<or> call fn ctx = (Inr (LBool True # rest), ctx') \<longrightarrow>
      Prepare call fn ctx = (None, ctx'))
   \<and> (call fn ctx = (Inr (LBool False # rest), ctx') \<longrightarrow>
      Prepare call fn ctx
        = (Some (Errorf ''returned false from the prepare function.'' []), ctx'))
   \<and> (call fn ctx = (Inl err, ctx') \<longrightarrow> Prepare call fn ctx = (Some err, ctx'))"
proof (intro conjI impI)
  assume "RawGetString config ''prepare'' \<noteq> LNil
      \<and> (\<forall>f. RawGetString config ''prepare'' \<noteq> LFunction f)"
  then show "registerTask ext name config s =
        (Some (RaiseError (if fileScriptConflict config then msgFileScript
                           else if foreachOnConflict ext config then msgForeachOn
                           else ''prepare have to be function.'') []), s)"
    by (subst registerTask_cases) (simp split: lvalue.splits)
next
  assume "RawGetString config ''prepare'' = LFunction prepareFn
        \<and> \<not> fileScriptConflict config \<and> \<not> foreachOnConflict ext config"
  then show "\<exists>t. registerTask ext name config s = (None, s\<lparr>Tasks := Tasks s @ [t]\<rparr>)
           \<and> Task_Prepare t = Some prepareFn"
    using registerTask_accepts_function by blast
next
  assume "call fn ctx = (Inr [], ctx') \<or> call fn ctx = (Inr (LNil # rest), ctx')
        \<or> call fn ctx = (Inr (LBool True # rest), ctx')"
  then show "Prepare call fn ctx = (None, ctx')"
    by (auto simp: Prepare_def)
next
  assume "call fn ctx = (Inr (LBool False # rest), ctx')"
  then show "Prepare call fn ctx
        = (Some (Errorf ''returned false from the prepare function.'' []), ctx')"
    by (simp add: Prepare_def)
next
  assume "call fn ctx = (Inl err, ctx')"
  then show "Prepare call fn ctx = (Some err, ctx')"
    by (simp add: Prepare_def)
qed

text \<open>
  C10.  When the callback completes and its first returned value is neither nil nor
  a boolean, the \<^verbatim>\<open>Prepare\<close> closure returns no error.
\<close>

theorem Prepare_other_value_succeeds:
  assumes "call fn ctx = (Inr (v # rest), ctx')" and "v \<noteq> LNil" and "\<forall>b. v \<noteq> LBool b"
  shows "Prepare call fn ctx = (None, ctx')"
  using assms by (cases v) (auto simp: Prepare_def)

theorem Prepare_other_value_succeeds_witness:
  "Prepare sampleCall 3 \<lparr>Payload = ''p''\<rparr> = (None, \<lparr>Payload = ''p''\<rparr>)"
  using Prepare_other_value_succeeds[of sampleCall 3 "\<lparr>Payload = ''p''\<rparr>" "LString ''ok''" "[]"
      "\<lparr>Payload = ''p''\<rparr>"]
  by (simp add: sampleCall_def)

theorem prepare_contract_witness:
  "registerTask sampleExternals ''deploy'' (Table [] [(''prepare'', LNumber 1)] []) emptyState
     = (Some (RaiseError ''prepare have to be function.'' []), emptyState)
   \<and> (\<exists>t. registerTask sampleExternals ''deploy'' (Table [] [(''prepare'', LFunction 1)] [])
            emptyState = (None, emptyState\<lparr>Tasks := [t]\<rparr>) \<and> Task_Prepare t = Some 1)
   \<and> Prepare sampleCall 4 \<lparr>Payload = ''p''\<rparr> = (None, \<lparr>Payload = ''seen''\<rparr>)
   \<and> Prepare sampleCall 1 \<lparr>Payload = ''p''\<rparr>
       = (Some (Errorf ''returned false from the prepare function.'' []), \<lparr>Payload = ''p''\<rparr>)
   \<and> Prepare sampleCall 2 \<lparr>Payload = ''p''\<rparr>
       = (Some (ApiError (LString ''boom'')), \<lparr>Payload = ''p''\<rparr>)"
proof -
  have a: "registerTask sampleExternals ''deploy'' (Table [] [(''prepare'', LNumber 1)] []) emptyState
     = (Some (RaiseError ''prepare have to be function.'' []), emptyState)"
    using prepare_contract[where config = "Table [] [(''prepare'', LNumber 1)] []"
        and ext = sampleExternals and name = "''deploy''" and s = emptyState]
    by (simp add: RawGetString_def fileScriptConflict_def foreachOnConflict_def targetsOf_def
        toSlice_def)
  have b: "\<exists>t. registerTask sampleExternals ''deploy'' (Table [] [(''prepare'', LFunction 1)] [])
            emptyState = (None, emptyState\<lparr>Tasks := [t]\<rparr>) \<and> Task_Prepare t = Some 1"
    using prepare_contract[where config = "Table [] [(''prepare'', LFunction 1)] []"
        and prepareFn = 1 and ext = sampleExternals and name = "''deploy''" and s = emptyState]
    by (simp add: RawGetString_def fileScriptConflict_def foreachOnConflict_def targetsOf_def
        toSlice_def emptyState_def)
  have c: "Prepare sampleCall 4 \<lparr>Payload = ''p''\<rparr> = (None, \<lparr>Payload = ''seen''\<rparr>)"
    using prepare_contract[where call = sampleCall and fn = 4 and ctx = "\<lparr>Payload = ''p''\<rparr>"
        and ctx' = "\<lparr>Payload = ''seen''\<rparr>" and rest = "[]"]
    by (simp add: sampleCall_def)
  have d: "Prepare sampleCall 1 \<lparr>Payload = ''p''\<rparr>
       = (Some (Errorf ''returned false from the prepare function.'' []), \<lparr>Payload = ''p''\<rparr>)"
    using prepare_contract[where call = sampleCall and fn = 1 and ctx = "\<lparr>Payload = ''p''\<rparr>"
        and ctx' = "\<lparr>Payload = ''p''\<rparr>" and rest = "[]"]
    by (simp add: sampleCall_def)
  have e: "Prepare sampleCall 2 \<lparr>Payload = ''p''\<rparr>
       = (Some (ApiError (LString ''boom'')), \<lparr>Payload = ''p''\<rparr>)"
    using prepare_contract[where call = sampleCall and fn = 2 and ctx = "\<lparr>Payload = ''p''\<rparr>"
        and ctx' = "\<lparr>Payload = ''p''\<rparr>" and err = "ApiError (LString ''boom'')"]
    by (simp add: sampleCall_def)
  from a b c d e show ?thesis by blast
qed

text \<open>
  C7 as stated fails: in \<open>conflictingPrepare\<close> the \<open>prepare\<close> value is a number, and
  the error raised is the file/script one.
\<close>

theorem prepare_not_function_counterexample:
  "RawGetString conflictingPrepare ''prepare'' = LNumber 1
   \<and> fst (registerTask sampleExternals ''deploy'' conflictingPrepare emptyState)
       = Some (RaiseError msgFileScript [])
   \<and> fst (registerTask sampleExternals ''deploy'' conflictingPrepare emptyState)
       \<noteq> Some (RaiseError ''prepare have to be function.'' [])"
  by (simp add: registerTask_def Let_def taskScalars_File taskScalars_Script
      conflictingPrepare_def RawGetString_def msgFileScript_def)

subsection \<open>Host construction\<close>

lemma registerHook_eq:
  "registerHook h p v = (hookError v, setHook h p (hookStored v))"
  by (cases v)
     (simp_all add: registerHook_def hookError_def hookStored_def setHook_def toLFunction_def)

lemma registerRemoteHook_eq:
  "registerRemoteHook h p v =
     (remoteHookError v, if remoteHookError v = None then setHook h p (hookStored v) else h)"
  by (cases v)
     (simp_all add: registerRemoteHook_def remoteHookError_def hookStored_def setHook_def)

lemma hostHooks_fst:
  "fst (hostHooks hookTb h) = map_option Panic (hooksError hookTb)"
  by (simp add: hostHooks_def registerHook_eq registerRemoteHook_eq hooksError_def
      split: option.splits)

lemma setHook_fields [simp]:
  "Host_Tags (setHook h p v) = Host_Tags h"
  "Host_Config (setHook h p v) = Host_Config h"
  "Host_Name (setHook h p v) = Host_Name h"
  "Host_Hooks (setHook h p v) q = (if q = p \<and> v \<noteq> None then v else Host_Hooks h q)"
  by (simp_all add: setHook_def split: option.splits)

lemma hostHooks_snd:
  assumes "hostHooks hookTb h = (None, h')"
  shows "Host_Tags h' = Host_Tags h" and "Host_Config h' = Host_Config h"
    and "Host_Name h' = Host_Name h"
    and "Host_Hooks h' ''after_connect'' =
           (case hookStored (RawGetString hookTb ''after_connect'') of
              Some x \<Rightarrow> Some x | None \<Rightarrow> Host_Hooks h ''after_connect'')"
    and "remoteHookError (RawGetString hookTb ''after_connect'') = None"
  using assms
  by (auto simp add: hostHooks_def registerHook_eq registerRemoteHook_eq
      split: option.splits if_splits)

lemma tagsLoop_fields:
  "tagsLoop kvs h = (None, h') \<Longrightarrow>
     Host_Hooks h' = Host_Hooks h \<and> Host_Config h' = Host_Config h \<and> Host_Name h' = Host_Name h"
  by (induction kvs arbitrary: h) (auto split: prod.splits if_splits)

lemma tagsLoop_strings:
  "list_all (\<lambda>kv. isLString (snd kv)) kvs \<Longrightarrow>
     tagsLoop kvs h =
       (None, h\<lparr>Host_Tags := Host_Tags h @ map (\<lambda>kv. fst (toString (snd kv))) kvs\<rparr>)"
  by (induction kvs arbitrary: h) (auto simp: isLString_def split: prod.splits)

lemma tagsLoop_not_strings:
  "\<not> list_all (\<lambda>kv. isLString (snd kv)) kvs \<Longrightarrow>
     fst (tagsLoop kvs h) = Some (RaiseError ''unsupported format of tags.'' [])"
  by (induction kvs arbitrary: h) (auto simp: isLString_def split: prod.splits)

lemma hostHooksOf_fst: "fst (hostHooksOf config h) = hooksAbort config"
  by (simp add: hostHooksOf_def hooksAbort_def hostHooks_fst split: option.splits)

lemma hostHooksOf_snd:
  assumes "hostHooksOf config h = (None, h')"
  shows "Host_Tags h' = Host_Tags h" and "Host_Config h' = Host_Config h"
    and "Host_Name h' = Host_Name h"
    and "toLTable (RawGetString config ''hooks'') = Some hookTb \<Longrightarrow>
           Host_Hooks h' ''after_connect'' =
           (case hookStored (RawGetString hookTb ''after_connect'') of
              Some x \<Rightarrow> Some x | None \<Rightarrow> Host_Hooks h ''after_connect'')
           \<and> remoteHookError (RawGetString hookTb ''after_connect'') = None"
    and "toLTable (RawGetString config ''hooks'') = None \<Longrightarrow> h' = h"
  using assms hostHooks_snd[of _ h h']
  by (auto simp add: hostHooksOf_def split: option.splits)

lemma hostScalars_fields [simp]:
  "Host_Tags (hostScalars config h) = Host_Tags h"
  "Host_Config (hostScalars config h) = Host_Config h"
  "Host_Name (hostScalars config h) = Host_Name h"
  "Host_Hooks (hostScalars config h) = Host_Hooks h"
  by (simp_all add: hostScalars_def Let_def split: prod.splits)

lemma hostTags_fields:
  "hostTags config h = (None, h') \<Longrightarrow>
     Host_Hooks h' = Host_Hooks h \<and> Host_Config h' = Host_Config h \<and> Host_Name h' = Host_Name h"
  by (auto simp add: hostTags_def dest: tagsLoop_fields split: lvalue.splits)

lemma registerHost_abort_state:
  "snd (registerHost ext name config s) = s \<or> fst (registerHost ext name config s) = None"
  by (simp add: registerHost_def split: prod.splits option.splits)

lemma registerHost_hooks_abort:
  assumes "hooksAbort config = Some a"
  shows "registerHost ext name config s = (Some a, s)"
proof -
  obtain e h where eh: "hostHooksOf config (newHost ext name config) = (e, h)"
    by (cases "hostHooksOf config (newHost ext name config)")
  with assms hostHooksOf_fst[of config "newHost ext name config"] have "e = Some a" by simp
  with eh show ?thesis by (simp add: registerHost_def)
qed

lemma registerHost_no_hooks_abort:
  assumes "hooksAbort config = None"
  shows "\<exists>h. hostHooksOf config (newHost ext name config) = (None, h)
          \<and> registerHost ext name config s =
              (case hostTags config (hostScalars config h) of
                 (Some a, h') \<Rightarrow> (Some a, s)
               | (None, h') \<Rightarrow> (None, s\<lparr>Hosts := Hosts s @ [h']\<rparr>))"
proof -
  obtain e h where eh: "hostHooksOf config (newHost ext name config) = (e, h)"
    by (cases "hostHooksOf config (newHost ext name config)")
  with assms hostHooksOf_fst[of config "newHost ext name config"] have "e = None" by simp
  with eh show ?thesis by (simp add: registerHost_def)
qed

lemma registerHost_success:
  assumes "registerHost ext name config s = (None, s')"
  shows "\<exists>h h1. s' = s\<lparr>Hosts := Hosts s @ [h]\<rparr>
          \<and> hostHooksOf config (newHost ext name config) = (None, h1)
          \<and> hostTags config (hostScalars config h1) = (None, h)"
  using assms
  by (auto simp add: registerHost_def split: prod.splits option.splits)

lemma hookError_Some: "hookError v = Some e \<Longrightarrow> e = Errorf ''invalid hook type %v'' [v]"
  by (cases v) (simp_all add: hookError_def)

lemma hooksError_function:
  assumes "RawGetString hookTb ''after_connect'' = LFunction f"
  shows "\<exists>v. hooksError hookTb = Some (Errorf ''invalid hook type %v'' [v])
           \<and> (v = RawGetString hookTb ''before'' \<or> v = RawGetString hookTb ''before_connect''
                \<or> v = LFunction f)"
  using assms
  by (auto simp add: hooksError_def remoteHookError_def dest: hookError_Some
      split: option.splits)

text \<open>
  C6.  A function under \<open>after_connect\<close> makes \<^verbatim>\<open>registerHost\<close> panic with the
  invalid-hook-type error and append nothing (the value named by the error is the
  function, unless \<open>before\<close> or \<open>before_connect\<close>, registered earlier, is itself
  invalid); a string under \<open>after_connect\<close> is stored as it is, as a remote
  command, in the host that is built; and no host that is built holds a callback
  under \<open>after_connect\<close>.
\<close>

theorem after_connect_holds_command_only:
  "(RawGetString config ''hooks'' = LTable hookTb
      \<and> RawGetString hookTb ''after_connect'' = LFunction f \<longrightarrow>
      (\<exists>v. registerHost ext name config s
              = (Some (Panic (Errorf ''invalid hook type %v'' [v])), s)
           \<and> (v = RawGetString hookTb ''before'' \<or> v = RawGetString hookTb ''before_connect''
                \<or> v = LFunction f)))
   \<and> (RawGetString config ''hooks'' = LTable hookTb
        \<and> RawGetString hookTb ''after_connect'' = LString cmd
        \<and> registerHost ext name config s = (None, s') \<longrightarrow>
      (\<exists>h. s' = s\<lparr>Hosts := Hosts s @ [h]\<rparr>
           \<and> Host_Hooks h ''after_connect'' = Some (RemoteCommand cmd)))
   \<and> (registerHost ext name config s = (None, s') \<longrightarrow>
      (\<exists>h. s' = s\<lparr>Hosts := Hosts s @ [h]\<rparr>
           \<and> (\<forall>fn. Host_Hooks h ''after_connect'' \<noteq> Some (NativeCallback fn))))"
proof (intro conjI impI)
  assume a: "RawGetString config ''hooks'' = LTable hookTb
      \<and> RawGetString hookTb ''after_connect'' = LFunction f"
  then obtain v where v: "hooksError hookTb = Some (Errorf ''invalid hook type %v'' [v])"
    "v = RawGetString hookTb ''before'' \<or> v = RawGetString hookTb ''before_connect''
                \<or> v = LFunction f"
    using hooksError_function by blast
  with a have "hooksAbort config = Some (Panic (Errorf ''invalid hook type %v'' [v]))"
    by (simp add: hooksAbort_def toLTable_def)
  then have "registerHost ext name config s
               = (Some (Panic (Errorf ''invalid hook type %v'' [v])), s)"
    by (rule registerHost_hooks_abort)
  with v(2) show "\<exists>v. registerHost ext name config s
              = (Some (Panic (Errorf ''invalid hook type %v'' [v])), s)
           \<and> (v = RawGetString hookTb ''before'' \<or> v = RawGetString hookTb ''before_connect''
                \<or> v = LFunction f)"
    by blast
next
  assume a: "RawGetString config ''hooks'' = LTable hookTb
        \<and> RawGetString hookTb ''after_connect'' = LString cmd
        \<and> registerHost ext name config s = (None, s')"
  then obtain h h1 where h: "s' = s\<lparr>Hosts := Hosts s @ [h]\<rparr>"
      "hostHooksOf config (newHost ext name config) = (None, h1)"
      "hostTags config (hostScalars config h1) = (None, h)"
    using registerHost_success by blast
  from a have tb: "toLTable (RawGetString config ''hooks'') = Some hookTb"
    by (simp add: toLTable_def)
  from hostHooksOf_snd(4)[OF h(2) tb] a
  have "Host_Hooks h1 ''after_connect'' = Some (RemoteCommand cmd)"
    by (simp add: hookStored_def)
  moreover from hostTags_fields[OF h(3)] have "Host_Hooks h = Host_Hooks h1" by simp
  ultimately show "\<exists>h. s' = s\<lparr>Hosts := Hosts s @ [h]\<rparr>
           \<and> Host_Hooks h ''after_connect'' = Some (RemoteCommand cmd)"
    using h(1) by auto
next
  assume a: "registerHost ext name config s = (None, s')"
  then obtain h h1 where h: "s' = s\<lparr>Hosts := Hosts s @ [h]\<rparr>"
      "hostHooksOf config (newHost ext name config) = (None, h1)"
      "hostTags config (hostScalars config h1) = (None, h)"
    using registerHost_success by blast
  from hostTags_fields[OF h(3)] have eq: "Host_Hooks h = Host_Hooks h1" by simp
  have "\<forall>fn. Host_Hooks h1 ''after_connect'' \<noteq> Some (NativeCallback fn)"
  proof (cases "toLTable (RawGetString config ''hooks'')")
    case None
    from hostHooksOf_snd(5)[OF h(2) None] show ?thesis by (simp add: newHost_def)
  next
    case (Some hookTb')
    from hostHooksOf_snd(4)[OF h(2) Some] show ?thesis
      by (cases "RawGetString hookTb' ''after_connect''")
         (simp_all add: hookStored_def remoteHookError_def newHost_def)
  qed
  with eq h(1) show "\<exists>h. s' = s\<lparr>Hosts := Hosts s @ [h]\<rparr>
           \<and> (\<forall>fn. Host_Hooks h ''after_connect'' \<noteq> Some (NativeCallback fn))"
    by auto
qed

lemmas registerHost_eval =
  registerHost_def hostHooksOf_def toLTable_def RawGetString_def hostHooks_def
  registerHook_def registerRemoteHook_def toLFunction_def hostTags_def hostScalars_def Let_def

theorem after_connect_holds_command_only_witness:
  "(\<exists>v. registerHost sampleExternals ''web'' hooksWithFunction emptyState
           = (Some (Panic (Errorf ''invalid hook type %v'' [v])), emptyState)
        \<and> v = LFunction 7)
   \<and> fst (registerHost sampleExternals ''web'' hooksWithCommand emptyState) = None
   \<and> (\<exists>h. snd (registerHost sampleExternals ''web'' hooksWithCommand emptyState)
             = emptyState\<lparr>Hosts := Hosts emptyState @ [h]\<rparr>
          \<and> Host_Hooks h ''after_connect'' = Some (RemoteCommand ''uptime'')
          \<and> (\<forall>fn. Host_Hooks h ''after_connect'' \<noteq> Some (NativeCallback fn)))"
proof -
  have ok: "fst (registerHost sampleExternals ''web'' hooksWithCommand emptyState) = None"
    by (simp add: registerHost_eval hooksWithCommand_def)
  then have eq: "registerHost sampleExternals ''web'' hooksWithCommand emptyState
      = (None, snd (registerHost sampleExternals ''web'' hooksWithCommand emptyState))"
    by (simp add: prod_eq_iff)
  have a: "\<exists>v. registerHost sampleExternals ''web'' hooksWithFunction emptyState
           = (Some (Panic (Errorf ''invalid hook type %v'' [v])), emptyState)
        \<and> v = LFunction 7"
    using after_connect_holds_command_only[where config = hooksWithFunction
        and hookTb = "Table [] [(''after_connect'', LFunction 7)] []" and f = 7
        and ext = sampleExternals and name = "''web''" and s = emptyState]
    by (simp add: hooksWithFunction_def RawGetString_def)
       (simp add: registerHost_eval)
  have b: "\<exists>h. snd (registerHost sampleExternals ''web'' hooksWithCommand emptyState)
             = emptyState\<lparr>Hosts := Hosts emptyState @ [h]\<rparr>
          \<and> Host_Hooks h ''after_connect'' = Some (RemoteCommand ''uptime'')
          \<and> (\<forall>fn. Host_Hooks h ''after_connect'' \<noteq> Some (NativeCallback fn))"
    using after_connect_holds_command_only[where config = hooksWithCommand
        and hookTb = "Table [] [(''after_connect'', LString ''uptime'')] []"
        and cmd = "''uptime''" and ext = sampleExternals and name = "''web''"
        and s = emptyState
        and s' = "snd (registerHost sampleExternals ''web'' hooksWithCommand emptyState)"] eq
    by (auto simp add: hooksWithCommand_def RawGetString_def)
  from a ok b show ?thesis by blast
qed

lemma hostTags_strings:
  assumes "RawGetString config ''tags'' = LTable tagsTb"
    and "list_all (\<lambda>v. snd (toString v)) (map snd (ForEach tagsTb))"
  shows "hostTags config h =
           (None, h\<lparr>Host_Tags := Host_Tags h
                       @ map (\<lambda>v. fst (toString v)) (map snd (ForEach tagsTb))\<rparr>)"
  using assms tagsLoop_strings[of "ForEach tagsTb" h]
  by (simp add: hostTags_def isLString_def list_all_iff comp_def)

lemma hostTags_not_strings:
  assumes "RawGetString config ''tags'' = LTable tagsTb"
    and "\<not> list_all (\<lambda>v. snd (toString v)) (map snd (ForEach tagsTb))"
  shows "fst (hostTags config h) = Some (RaiseError ''unsupported format of tags.'' [])"
  using assms tagsLoop_not_strings[of "ForEach tagsTb" h]
  by (simp add: hostTags_def isLString_def list_all_iff)

text \<open>
  C8, as the code has it.  Let \<open>tags\<close> be a table.  The hooks are registered first
  (lines 121-148), and a panic there ends the construction with that error.  When
  the hooks pass: if a value that \<^verbatim>\<open>ForEach\<close> visits is not a string the construction
  fails with \<open>unsupported format of tags.\<close> and nothing is appended; if all are
  strings the host is appended and its \<^verbatim>\<open>Tags\<close> are those strings in the order of
  the visit.
\<close>

theorem tags_contract:
  "RawGetString config ''tags'' = LTable tagsTb \<longrightarrow>
     (fst (hostHooksOf config (newHost ext name config)) = None
        \<and> \<not> list_all (\<lambda>v. snd (toString v)) (map snd (ForEach tagsTb)) \<longrightarrow>
        registerHost ext name config s
          = (Some (RaiseError ''unsupported format of tags.'' []), s))
     \<and> (fst (hostHooksOf config (newHost ext name config)) = None
        \<and> list_all (\<lambda>v. snd (toString v)) (map snd (ForEach tagsTb)) \<longrightarrow>
        (\<exists>h. registerHost ext name config s = (None, s\<lparr>Hosts := Hosts s @ [h]\<rparr>)
             \<and> Host_Tags h = map (\<lambda>v. fst (toString v)) (map snd (ForEach tagsTb))))
     \<and> (fst (hostHooksOf config (newHost ext name config)) = Some a \<longrightarrow>
        registerHost ext name config s = (Some a, s))"
proof (intro impI conjI)
  assume t: "RawGetString config ''tags'' = LTable tagsTb"
  assume "fst (hostHooksOf config (newHost ext name config)) = None
        \<and> \<not> list_all (\<lambda>v. snd (toString v)) (map snd (ForEach tagsTb))"
  then obtain h where h: "hostHooksOf config (newHost ext name config) = (None, h)"
    and n: "\<not> list_all (\<lambda>v. snd (toString v)) (map snd (ForEach tagsTb))"
    by (cases "hostHooksOf config (newHost ext name config)") auto
  from hostTags_not_strings[OF t n, of "hostScalars config h"] h
  show "registerHost ext name config s
          = (Some (RaiseError ''unsupported format of tags.'' []), s)"
    by (cases "hostTags config (hostScalars config h)") (simp add: registerHost_def)
next
  assume t: "RawGetString config ''tags'' = LTable tagsTb"
  assume "fst (hostHooksOf config (newHost ext name config)) = None
        \<and> list_all (\<lambda>v. snd (toString v)) (map snd (ForEach tagsTb))"
  then obtain h where h: "hostHooksOf config (newHost ext name config) = (None, h)"
    and n: "list_all (\<lambda>v. snd (toString v)) (map snd (ForEach tagsTb))"
    by (cases "hostHooksOf config (newHost ext name config)") auto
  from hostHooksOf_snd(1)[OF h] have "Host_Tags h = []" by (simp add: newHost_def)
  with hostTags_strings[OF t n, of "hostScalars config h"] h
  show "\<exists>h. registerHost ext name config s = (None, s\<lparr>Hosts := Hosts s @ [h]\<rparr>)
             \<and> Host_Tags h = map (\<lambda>v. fst (toString v)) (map snd (ForEach tagsTb))"
    by (intro exI[of _ "hostScalars config h\<lparr>Host_Tags :=
          map (\<lambda>v. fst (toString v)) (map snd (ForEach tagsTb))\<rparr>"])
       (simp add: registerHost_def)
next
  assume "fst (hostHooksOf config (newHost ext name config)) = Some a"
  then show "registerHost ext name config s = (Some a, s)"
    by (cases "hostHooksOf config (newHost ext name config)") (simp add: registerHost_def)
qed

lemma ForEach_array_only:
  "ForEach (Table [LString x, y] [] []) =
     (LNumber 1, LString x) # (if y = LNil then [] else [(LNumber 2, y)])"
  by (simp add: ForEach_def enumerate_eq_zip upt_rec[of 0] upt_rec[of 1])

theorem tags_contract_witness:
  "registerHost sampleExternals ''web'' badlyTaggedHost emptyState
     = (Some (RaiseError ''unsupported format of tags.'' []), emptyState)
   \<and> (\<exists>h. registerHost sampleExternals ''web'' taggedHost emptyState
            = (None, emptyState\<lparr>Hosts := Hosts emptyState @ [h]\<rparr>)
          \<and> Host_Tags h = [''a'', ''b''])
   \<and> registerHost sampleExternals ''web'' badHookTaggedHost emptyState
     = (Some (Panic (Errorf ''invalid hook type %v'' [LNumber 42])), emptyState)"
proof -
  have a: "registerHost sampleExternals ''web'' badlyTaggedHost emptyState
     = (Some (RaiseError ''unsupported format of tags.'' []), emptyState)"
    using tags_contract[where config = badlyTaggedHost
        and tagsTb = "Table [LString ''a'', LNumber 1] [] []" and ext = sampleExternals
        and name = "''web''" and s = emptyState]
    by (simp add: badlyTaggedHost_def RawGetString_def hostHooksOf_def toLTable_def
        ForEach_array_only)
  have b: "\<exists>h. registerHost sampleExternals ''web'' taggedHost emptyState
            = (None, emptyState\<lparr>Hosts := Hosts emptyState @ [h]\<rparr>)
          \<and> Host_Tags h = [''a'', ''b'']"
    using tags_contract[where config = taggedHost
        and tagsTb = "Table [LString ''a'', LString ''b''] [] []" and ext = sampleExternals
        and name = "''web''" and s = emptyState]
    by (simp add: taggedHost_def RawGetString_def hostHooksOf_def toLTable_def
        ForEach_array_only)
  have c: "registerHost sampleExternals ''web'' badHookTaggedHost emptyState
     = (Some (Panic (Errorf ''invalid hook type %v'' [LNumber 42])), emptyState)"
    using tags_contract[where config = badHookTaggedHost
        and tagsTb = "Table [LNumber 1] [] []" and ext = sampleExternals
        and name = "''web''" and s = emptyState
        and a = "Panic (Errorf ''invalid hook type %v'' [LNumber 42])"]
    by (simp add: badHookTaggedHost_def RawGetString_def hostHooksOf_def toLTable_def
        hostHooks_def registerHook_def toLFunction_def)
  from a b c show ?thesis by blast
qed

text \<open>
  C8 as stated fails: in \<open>badHookTaggedHost\<close> the \<open>tags\<close> table holds a number, and
  the construction fails with the invalid-hook-type panic of \<open>before\<close>, not with the
  tags error.
\<close>

theorem tags_error_counterexample:
  "RawGetString badHookTaggedHost ''tags'' = LTable (Table [LNumber 1] [] [])
   \<and> map snd (ForEach (Table [LNumber 1] [] [])) = [LNumber 1]
   \<and> fst (registerHost sampleExternals ''web'' badHookTaggedHost emptyState)
       = Some (Panic (Errorf ''invalid hook type %v'' [LNumber 42]))
   \<and> fst (registerHost sampleExternals ''web'' badHookTaggedHost emptyState)
       \<noteq> Some (RaiseError ''unsupported format of tags.'' [])"
  by (simp add: badHookTaggedHost_def registerHost_eval ForEach_def enumerate_eq_zip)

subsection \<open>Conversion of tables\<close>

lemma MaxN_loop_le: "MaxN_loop arr n \<le> n"
  by (induction n) auto

lemma MaxN_loop_above: "MaxN_loop arr n \<le> i \<Longrightarrow> i < n \<Longrightarrow> arr ! i = LNil"
  by (induction n) (auto split: if_splits simp: less_Suc_eq)

lemma MaxN_loop_at: "0 < MaxN_loop arr n \<Longrightarrow> arr ! (MaxN_loop arr n - 1) \<noteq> LNil"
  by (induction n) (auto split: if_splits)

lemma MaxN_le_length: "MaxN tb \<le> length (array tb)"
  by (simp add: MaxN_def MaxN_loop_le)

lemma RawGetInt_MaxN: "0 < MaxN tb \<Longrightarrow> RawGetInt tb (MaxN tb) \<noteq> LNil"
  using MaxN_loop_at[of "array tb" "length (array tb)"] MaxN_le_length[of tb]
  by (auto simp add: RawGetInt_def MaxN_def)

lemma RawGetInt_above_MaxN: "MaxN tb < i \<Longrightarrow> RawGetInt tb i = LNil"
  using MaxN_loop_above[of "array tb" "length (array tb)" "i - 1"]
  by (auto simp add: RawGetInt_def MaxN_def)

lemma contiguousN_present: "1 \<le> i \<Longrightarrow> i \<le> contiguousN tb \<Longrightarrow> RawGetInt tb i \<noteq> LNil"
proof -
  assume i: "1 \<le> i" "i \<le> contiguousN tb"
  let ?tw = "takeWhile (\<lambda>v. v \<noteq> LNil) (array tb)"
  from i have lt: "i - 1 < length ?tw" by (simp add: contiguousN_def)
  then have "?tw ! (i - 1) \<in> set ?tw" by (rule nth_mem)
  then have "?tw ! (i - 1) \<noteq> LNil" by (auto dest: set_takeWhileD)
  moreover from lt have "?tw ! (i - 1) = array tb ! (i - 1)" by (rule takeWhile_nth)
  moreover from lt have "i - 1 < length (array tb)"
    using length_takeWhile_le[of "\<lambda>v. v \<noteq> LNil" "array tb"] by simp
  ultimately show ?thesis using i by (simp add: RawGetInt_def)
qed

lemma contiguousN_next: "RawGetInt tb (Suc (contiguousN tb)) = LNil"
  using nth_length_takeWhile[of "\<lambda>v. v \<noteq> LNil" "array tb"]
  by (auto simp add: RawGetInt_def contiguousN_def)

lemma contiguousN_le_MaxN: "contiguousN tb \<le> MaxN tb"
proof (rule ccontr)
  assume "\<not> contiguousN tb \<le> MaxN tb"
  then have "MaxN tb < contiguousN tb" by simp
  then have "RawGetInt tb (contiguousN tb) = LNil" by (rule RawGetInt_above_MaxN)
  moreover have "RawGetInt tb (contiguousN tb) \<noteq> LNil"
    using \<open>MaxN tb < contiguousN tb\<close> by (intro contiguousN_present) simp_all
  ultimately show False by simp
qed

lemma MaxN_eq_contiguousN:
  assumes "\<forall>i. 1 \<le> i \<and> i \<le> MaxN tb \<longrightarrow> RawGetInt tb i \<noteq> LNil"
  shows "MaxN tb = contiguousN tb"
proof (rule ccontr)
  assume "MaxN tb \<noteq> contiguousN tb"
  with contiguousN_le_MaxN[of tb] have "Suc (contiguousN tb) \<le> MaxN tb" by simp
  with assms have "RawGetInt tb (Suc (contiguousN tb)) \<noteq> LNil" by simp
  with contiguousN_next show False by simp
qed

lemma isArrayKey_small [simp]: "isArrayKey 1" "isArrayKey 2" "isArrayKey 3"
  by (simp_all add: isArrayKey_def isInteger_def MaxArrayIndex_def)

lemma table_123:
  "RawSet (RawSet (RawSet NewTable (LNumber 1) a) (LNumber 2) b) (LNumber 3) c
     = Table [a, b, c] [] []"
  by (simp add: NewTable_def arrayStore_def)

lemma table_13:
  "RawSet (RawSet NewTable (LNumber 1) a) (LNumber 3) c = Table [a, LNil, c] [] []"
  by (simp add: NewTable_def arrayStore_def)

lemma upt_1_4: "[Suc 0..<4] = [1, 2, 3]" "[1..<Suc 3] = [1, 2, 3]"
  by code_simp+

text \<open>
  C2, as the code has it.  \<^verbatim>\<open>MaxN\<close> is the largest key of the array part that holds a
  non-nil value (\<open>0\<close> when there is none): the slot at \<open>MaxN\<close> is non-nil and every
  slot above it is nil.  It is at least the spec's \<open>contiguousN\<close> and equals it when
  no slot up to \<open>MaxN\<close> is nil.  A table with \<open>MaxN = 0\<close> converts to a mapping, every
  other table to the sequence of the converted slots \<open>1..MaxN\<close> in index order.  So
  the table with the keys \<open>1, 2, 3\<close> converts to the sequence of its three values,
  and the table with the keys \<open>1, 3\<close> converts to a sequence of length 3 whose
  second element is nil.
\<close>

theorem toGoValue_table_shape:
  "(MaxN tb = 0 \<longrightarrow> (\<exists>m. toGoValue sprint (LTable tb) = GMap m))
   \<and> (0 < MaxN tb \<longrightarrow>
        toGoValue sprint (LTable tb)
          = GSlice (map (\<lambda>i. toGoValue sprint (RawGetInt tb i)) [1..<Suc (MaxN tb)])
        \<and> RawGetInt tb (MaxN tb) \<noteq> LNil)
   \<and> (\<forall>i. MaxN tb < i \<longrightarrow> RawGetInt tb i = LNil)
   \<and> contiguousN tb \<le> MaxN tb
   \<and> ((\<forall>i. 1 \<le> i \<and> i \<le> MaxN tb \<longrightarrow> RawGetInt tb i \<noteq> LNil) \<longrightarrow> MaxN tb = contiguousN tb)
   \<and> (a \<noteq> LNil \<and> b \<noteq> LNil \<and> c \<noteq> LNil \<longrightarrow>
        toGoValue sprint
          (LTable (RawSet (RawSet (RawSet NewTable (LNumber 1) a) (LNumber 2) b) (LNumber 3) c))
          = GSlice [toGoValue sprint a, toGoValue sprint b, toGoValue sprint c])
   \<and> (a \<noteq> LNil \<and> c \<noteq> LNil \<longrightarrow>
        toGoValue sprint (LTable (RawSet (RawSet NewTable (LNumber 1) a) (LNumber 3) c))
          = GSlice [toGoValue sprint a, GNil, toGoValue sprint c])"
proof (intro conjI impI allI)
  assume "MaxN tb = 0"
  then show "\<exists>m. toGoValue sprint (LTable tb) = GMap m" by simp
next
  assume "0 < MaxN tb"
  then show "toGoValue sprint (LTable tb)
          = GSlice (map (\<lambda>i. toGoValue sprint (RawGetInt tb i)) [1..<Suc (MaxN tb)])"
    by (simp add: Let_def)
next
  assume "0 < MaxN tb"
  then show "RawGetInt tb (MaxN tb) \<noteq> LNil" by (rule RawGetInt_MaxN)
next
  fix i assume "MaxN tb < i"
  then show "RawGetInt tb i = LNil" by (rule RawGetInt_above_MaxN)
next
  show "contiguousN tb \<le> MaxN tb" by (rule contiguousN_le_MaxN)
next
  assume "\<forall>i. 1 \<le> i \<and> i \<le> MaxN tb \<longrightarrow> RawGetInt tb i \<noteq> LNil"
  then show "MaxN tb = contiguousN tb" by (rule MaxN_eq_contiguousN)
next
  assume "a \<noteq> LNil \<and> b \<noteq> LNil \<and> c \<noteq> LNil"
  then have "MaxN (Table [a, b, c] [] []) = 3"
    by (simp add: MaxN_def numeral_3_eq_3)
  then show "toGoValue sprint
          (LTable (RawSet (RawSet (RawSet NewTable (LNumber 1) a) (LNumber 2) b) (LNumber 3) c))
          = GSlice [toGoValue sprint a, toGoValue sprint b, toGoValue sprint c]"
    unfolding table_123 by (simp add: Let_def upt_1_4 RawGetInt_def)
next
  assume "a \<noteq> LNil \<and> c \<noteq> LNil"
  then have "MaxN (Table [a, LNil, c] [] []) = 3"
    by (simp add: MaxN_def numeral_3_eq_3)
  then show "toGoValue sprint (LTable (RawSet (RawSet NewTable (LNumber 1) a) (LNumber 3) c))
          = GSlice [toGoValue sprint a, GNil, toGoValue sprint c]"
    unfolding table_13 by (simp add: Let_def upt_1_4 RawGetInt_def)
qed

text \<open>
  C2 as stated fails on the table with the keys \<open>1\<close> and \<open>3\<close>: it converts to a
  sequence, not to a mapping, and \<^verbatim>\<open>MaxN\<close> is 3 there while the keys \<open>1..n\<close> are all
  present only up to \<open>n = 1\<close>.
\<close>

theorem toGoValue_keys_1_3_counterexample:
  "toGoValue (\<lambda>v. [])
     (LTable (RawSet (RawSet NewTable (LNumber 1) (LString ''a'')) (LNumber 3) (LString ''c'')))
     = GSlice [GString ''a'', GNil, GString ''c'']
   \<and> MaxN (RawSet (RawSet NewTable (LNumber 1) (LString ''a'')) (LNumber 3) (LString ''c'')) = 3
   \<and> contiguousN
        (RawSet (RawSet NewTable (LNumber 1) (LString ''a'')) (LNumber 3) (LString ''c'')) = 1"
  unfolding table_13
  by (simp add: Let_def upt_1_4 RawGetInt_def MaxN_def numeral_3_eq_3 contiguousN_def)

theorem toGoValue_table_shape_witness:
  "(\<exists>m. toGoValue (\<lambda>v. []) (LTable (Table [] [(''x'', LBool True)] [])) = GMap m)
   \<and> toGoValue (\<lambda>v. []) (LTable (Table [LString ''a'', LNil, LString ''c'', LNil] [] []))
       = GSlice [GString ''a'', GNil, GString ''c'']
   \<and> RawGetInt (Table [LString ''a'', LNil, LString ''c'', LNil] [] []) 4 = LNil
   \<and> contiguousN (Table [LString ''a'', LNil, LString ''c'', LNil] [] []) \<le> 3
   \<and> MaxN (Table [LString ''a'', LString ''b''] [] [])
       = contiguousN (Table [LString ''a'', LString ''b''] [] [])
   \<and> toGoValue (\<lambda>v. [])
        (LTable (RawSet (RawSet (RawSet NewTable (LNumber 1) (LString ''a''))
           (LNumber 2) (LNumber 5)) (LNumber 3) (LBool False)))
       = GSlice [GString ''a'', GFloat64 5, GBool False]
   \<and> toGoValue (\<lambda>v. [])
        (LTable (RawSet (RawSet NewTable (LNumber 1) (LString ''a'')) (LNumber 3) (LString ''c'')))
       = GSlice [GString ''a'', GNil, GString ''c'']"
proof -
  note T = toGoValue_table_shape[where sprint = "\<lambda>v. []"]
  let ?holes = "Table [LString ''a'', LNil, LString ''c'', LNil] [] []"
  let ?ab = "Table [LString ''a'', LString ''b''] [] []"
  have m3: "MaxN ?holes = 3"
    by (simp add: MaxN_def numeral_eq_Suc)
  have m2: "MaxN ?ab = 2"
    by (simp add: MaxN_def numeral_2_eq_2)
  have a: "\<exists>m. toGoValue (\<lambda>v. []) (LTable (Table [] [(''x'', LBool True)] [])) = GMap m"
    using T[where tb = "Table [] [(''x'', LBool True)] []", THEN conjunct1]
    by (simp add: MaxN_def)
  have b1: "toGoValue (\<lambda>v. []) (LTable ?holes) = GSlice [GString ''a'', GNil, GString ''c'']"
    using T[where tb = ?holes, THEN conjunct2, THEN conjunct1] m3
    by (simp add: upt_1_4 RawGetInt_def)
  have b2: "RawGetInt ?holes 4 = LNil"
    using T[where tb = ?holes, THEN conjunct2, THEN conjunct2, THEN conjunct1, rule_format,
        of 4] m3
    by simp
  have b3: "contiguousN ?holes \<le> 3"
    using T[where tb = ?holes, THEN conjunct2, THEN conjunct2, THEN conjunct2, THEN conjunct1]
      m3
    by simp
  have "\<forall>i. 1 \<le> i \<and> i \<le> MaxN ?ab \<longrightarrow> RawGetInt ?ab i \<noteq> LNil"
    unfolding m2 by (auto simp add: RawGetInt_def nth_Cons' le_Suc_eq numeral_2_eq_2)
  then have c: "MaxN ?ab = contiguousN ?ab"
    using T[where tb = ?ab, THEN conjunct2, THEN conjunct2, THEN conjunct2, THEN conjunct2,
        THEN conjunct1]
    by blast
  have d: "toGoValue (\<lambda>v. [])
        (LTable (RawSet (RawSet (RawSet NewTable (LNumber 1) (LString ''a''))
           (LNumber 2) (LNumber 5)) (LNumber 3) (LBool False)))
       = GSlice [GString ''a'', GFloat64 5, GBool False]"
    using T[where a = "LString ''a''" and b = "LNumber 5" and c = "LBool False",
        THEN conjunct2, THEN conjunct2, THEN conjunct2, THEN conjunct2, THEN conjunct2,
        THEN conjunct1]
    by simp
  have e: "toGoValue (\<lambda>v. [])
        (LTable (RawSet (RawSet NewTable (LNumber 1) (LString ''a'')) (LNumber 3) (LString ''c'')))
       = GSlice [GString ''a'', GNil, GString ''c'']"
    using T[where a = "LString ''a''" and c = "LString ''c''",
        THEN conjunct2, THEN conjunct2, THEN conjunct2, THEN conjunct2, THEN conjunct2,
        THEN conjunct2]
    by simp
  from a b1 b2 b3 c d e show ?thesis by blast
qed

subsection \<open>Module registry\<close>






subsection \<open>The configuration filter\<close>



























end
